theory Spec2Isabelle
  imports Main "HOL-Library.Word" "HOL-Library.Log_Nat" "HOL-Library.AList"
begin

unbundle bit_operations_syntax

section \<open>Buffers and numbers\<close>

text \<open>
  A Buffer is a list of bytes. JavaScript numbers that hold sizes, counters, header fields
  and millisecond timestamps are natural numbers; the differences of two timestamps are
  integers.
\<close>

type_synonym byte = "8 word"
type_synonym buffer = "byte list"

text \<open>\<^verbatim>\<open>src/types.js\<close>: the protocol constants.\<close>

definition PROTOCOL_VERSION :: nat where "PROTOCOL_VERSION = 1"
definition HEADER_SIZE :: nat where "HEADER_SIZE = 52"
definition SIGNATURE_SIZE :: nat where "SIGNATURE_SIZE = 64"
definition PUBLIC_KEY_SIZE :: nat where "PUBLIC_KEY_SIZE = 32"

definition CONTROL :: nat where "CONTROL = 1"
definition REQUEST :: nat where "REQUEST = 2"
definition RESPONSE :: nat where "RESPONSE = 3"
definition EVENT :: nat where "EVENT = 4"
definition STREAM_DATA :: nat where "STREAM_DATA = 5"
definition STREAM_END :: nat where "STREAM_END = 6"
definition INTRODUCE :: nat where "INTRODUCE = 7"

text \<open>
  \<^verbatim>\<open>Buffer.alloc(n)\<close> is zero filled. \<^verbatim>\<open>src.copy(buf, off)\<close> overwrites \<open>buf\<close> from
  \<open>off\<close> on with the bytes of \<open>src\<close>, as many as fit; the target keeps its length.
\<close>

definition alloc :: "nat \<Rightarrow> buffer" where
  "alloc n = replicate n 0"

definition copy :: "buffer \<Rightarrow> buffer \<Rightarrow> nat \<Rightarrow> buffer" where
  "copy src buf off =
     (if off \<le> length buf
      then take off buf @ take (length buf - off) src @ drop (off + length src) buf
      else buf)"

text \<open>\<^verbatim>\<open>buf.subarray(a, b)\<close> with \<open>a \<le> b\<close>, clamped to the buffer.\<close>

definition subarray :: "buffer \<Rightarrow> nat \<Rightarrow> nat \<Rightarrow> buffer" where
  "subarray buf a b = take (b - a) (drop a buf)"

text \<open>
  Big-endian unsigned integers of \<open>k\<close> bytes. Writing keeps the low \<open>8 * k\<close> bits of the
  value (\<open>of_nat\<close> into a byte is \<open>mod 256\<close>).
\<close>

fun be_bytes :: "nat \<Rightarrow> nat \<Rightarrow> buffer" where
  "be_bytes 0 n = []"
| "be_bytes (Suc k) n = of_nat (n div 256 ^ k) # be_bytes k n"

definition be_nat :: "buffer \<Rightarrow> nat" where
  "be_nat bs = foldl (\<lambda>a b. a * 256 + unat b) 0 bs"

definition writeUInt :: "nat \<Rightarrow> nat \<Rightarrow> buffer \<Rightarrow> nat \<Rightarrow> buffer" where
  "writeUInt k v buf off = copy (be_bytes k v) buf off"

definition readUInt :: "nat \<Rightarrow> buffer \<Rightarrow> nat \<Rightarrow> nat" where
  "readUInt k buf off = be_nat (subarray buf off (off + k))"

text \<open>
  \<^verbatim>\<open>Number(b)\<close> for a BigInt \<open>b \<ge> 0\<close>: the nearest double, ties to even. Integers below
  \<open>2 ^ 53\<close> are exact; a larger one keeps its 53 leading bits, rounded.
\<close>

definition Number_of_BigInt :: "nat \<Rightarrow> nat" where
  "Number_of_BigInt n =
     (if n < 2 ^ 53 then n
      else let e = floorlog 2 n - 53;
               q = n div 2 ^ e;
               r = n mod 2 ^ e;
               h = 2 ^ (e - 1)
           in if r < h \<or> (r = h \<and> even q) then q * 2 ^ e else (q + 1) * 2 ^ e)"

text \<open>\<^verbatim>\<open>buf.toString('hex')\<close>: two lower-case hexadecimal digits per byte.\<close>

definition hex_digit :: "nat \<Rightarrow> char" where
  "hex_digit d = (''0123456789abcdef'') ! (d mod 16)"

definition toHex :: "buffer \<Rightarrow> string" where
  "toHex bs = concat (map (\<lambda>b. [hex_digit (unat b div 16), hex_digit (unat b mod 16)]) bs)"


section \<open>JSON values\<close>

text \<open>
  The values \<^verbatim>\<open>JSON.parse\<close> returns and \<^verbatim>\<open>JSON.stringify\<close> accepts. Strings are
  their UTF-8 byte sequences and numbers are integers (every number the protocol itself
  writes is one). A property \<open>undefined\<close> is a key that is left out of the object.
\<close>

datatype json =
    JNull
  | JBool bool
  | JNum int
  | JStr string
  | JArr "json list"
  | JObj "(string \<times> json) list"

definition dec_digit :: "nat \<Rightarrow> char" where
  "dec_digit d = (''0123456789'') ! (d mod 10)"

fun dec_nat :: "nat \<Rightarrow> string" where
  "dec_nat n =
     (if n < 10 then [dec_digit n]
      else dec_nat (n div 10) @ [dec_digit (n mod 10)])"

declare dec_nat.simps [simp del]

definition dec_int :: "int \<Rightarrow> string" where
  "dec_int i = (if i < 0 then CHR ''-'' # dec_nat (nat (- i)) else dec_nat (nat i))"

text \<open>The escapes of \<^verbatim>\<open>JSON.stringify\<close> inside a string literal.\<close>

definition escape_char :: "char \<Rightarrow> string" where
  "escape_char c =
     (if c = CHR 0x22 then [CHR 0x5C, CHR 0x22]
      else if c = CHR 0x5C then [CHR 0x5C, CHR 0x5C]
      else if c = CHR 0x08 then [CHR 0x5C, CHR ''b'']
      else if c = CHR 0x0C then [CHR 0x5C, CHR ''f'']
      else if c = CHR 0x0A then [CHR 0x5C, CHR ''n'']
      else if c = CHR 0x0D then [CHR 0x5C, CHR ''r'']
      else if c = CHR 0x09 then [CHR 0x5C, CHR ''t'']
      else if (of_char c :: nat) < 32
        then [CHR 0x5C, CHR ''u'', CHR ''0'', CHR ''0'',
              hex_digit (of_char c div 16), hex_digit (of_char c mod 16)]
      else [c])"

definition quote :: "string \<Rightarrow> string" where
  "quote s = CHR 0x22 # concat (map escape_char s) @ [CHR 0x22]"

fun join :: "string \<Rightarrow> string list \<Rightarrow> string" where
  "join sep [] = []"
| "join sep [x] = x"
| "join sep (x # y # ys) = x @ sep @ join sep (y # ys)"

primrec JSON_stringify :: "json \<Rightarrow> string" where
  "JSON_stringify JNull = ''null''"
| "JSON_stringify (JBool b) = (if b then ''true'' else ''false'')"
| "JSON_stringify (JNum i) = dec_int i"
| "JSON_stringify (JStr s) = quote s"
| "JSON_stringify (JArr xs) = ''['' @ join '','' (map JSON_stringify xs) @ '']''"
| "JSON_stringify (JObj kvs) =
     ''{'' @ join '','' (map (\<lambda>kv. quote (fst kv) @ '':'' @ snd kv)
                           (map (map_prod id JSON_stringify) kvs)) @ ''}''"

text \<open>\<^verbatim>\<open>Buffer.from(string)\<close>: the bytes of the string.\<close>

definition Buffer_from :: "string \<Rightarrow> buffer" where
  "Buffer_from s = map (\<lambda>c. of_nat (of_char c)) s"

text \<open>
  An object literal with properties that may be \<open>undefined\<close>: \<^verbatim>\<open>JSON.stringify\<close> skips
  those.
\<close>

definition object :: "(string \<times> json option) list \<Rightarrow> json" where
  "object props = JObj (concat (map (\<lambda>(k, v). case v of None \<Rightarrow> [] | Some x \<Rightarrow> [(k, x)]) props))"

section \<open>Signatures\<close>

text \<open>
  \<^verbatim>\<open>hypercore-crypto\<close> is a library outside the repository. Its two functions are
  parameters of everything that signs or verifies: \<open>sign message secretKey\<close> returns the
  signature, \<open>verify message signature publicKey\<close> returns \<open>Some\<close> of the library's
  answer, or \<open>None\<close> when the library throws (arguments of the wrong size).
\<close>

type_synonym sign_fn = "buffer \<Rightarrow> buffer \<Rightarrow> buffer"
type_synonym verify_fn = "buffer \<Rightarrow> buffer \<Rightarrow> buffer \<Rightarrow> bool option"

record keyPair =
  publicKey :: buffer
  secretKey :: buffer

section \<open>Errors\<close>

text \<open>
  The error classes of \<^verbatim>\<open>src/types.js\<close>, and the errors the runtime itself throws. A
  ProtocolError carries which check failed, with the numbers its message prints.
\<close>

datatype protocol_error =
    BufferTooSmall nat
  | LengthMismatch nat nat
  | UnsupportedVersion nat
  | NegativePayloadLength
  | InvalidFrameSignature
  | SenderMismatch string string
  | UnknownMessageType nat

section \<open>Frame codec (\<^verbatim>\<open>src/protocol.js\<close>)\<close>

record frame =
  flength :: nat
  version :: nat
  ftype :: nat
  flags :: nat
  timestamp :: nat
  senderPubkey :: buffer
  payload :: buffer
  signature :: buffer

definition serializeFrame :: "frame \<Rightarrow> buffer" where
  "serializeFrame f =
     (let totalSize = 4 + 1 + 1 + 2 + 8 + PUBLIC_KEY_SIZE + length (payload f) + SIGNATURE_SIZE;
          buffer = alloc totalSize;
          offset = 0;
          buffer = writeUInt 4 totalSize buffer offset;
          offset = offset + 4;
          buffer = writeUInt 1 (version f) buffer offset;
          offset = offset + 1;
          buffer = writeUInt 1 (ftype f) buffer offset;
          offset = offset + 1;
          buffer = writeUInt 2 (flags f) buffer offset;
          offset = offset + 2;
          buffer = writeUInt 8 (timestamp f) buffer offset;
          offset = offset + 8;
          buffer = copy (senderPubkey f) buffer offset;
          offset = offset + PUBLIC_KEY_SIZE;
          buffer = copy (payload f) buffer offset;
          offset = offset + length (payload f);
          buffer = copy (signature f) buffer offset
      in buffer)"

definition deserializeFrame :: "buffer \<Rightarrow> protocol_error + frame" where
  "deserializeFrame buffer =
     (if length buffer < HEADER_SIZE + SIGNATURE_SIZE
      then Inl (BufferTooSmall (length buffer))
      else
        let offset = 0;
            len = readUInt 4 buffer offset;
            offset = offset + 4
        in if length buffer \<noteq> len then Inl (LengthMismatch len (length buffer))
        else
          let ver = readUInt 1 buffer offset;
              offset = offset + 1
          in if ver \<noteq> PROTOCOL_VERSION then Inl (UnsupportedVersion ver)
          else
            let ty = readUInt 1 buffer offset;
                offset = offset + 1;
                fl = readUInt 2 buffer offset;
                offset = offset + 2;
                ts = Number_of_BigInt (readUInt 8 buffer offset);
                offset = offset + 8;
                pk = subarray buffer offset (offset + PUBLIC_KEY_SIZE);
                offset = offset + PUBLIC_KEY_SIZE;
                payloadLength = int len - int offset - int SIGNATURE_SIZE
            in if payloadLength < 0 then Inl NegativePayloadLength
            else
              let pl = subarray buffer offset (offset + nat payloadLength);
                  offset = offset + nat payloadLength;
                  sg = subarray buffer offset (offset + SIGNATURE_SIZE)
              in Inr \<lparr> flength = len, version = ver, ftype = ty, flags = fl,
                       timestamp = ts, senderPubkey = pk, payload = pl, signature = sg \<rparr>)"


text \<open>\<^verbatim>\<open>createFrame(type, payload, keyPair, flags)\<close>; \<open>now\<close> is \<^verbatim>\<open>Date.now()\<close>.\<close>

definition createFrame :: "sign_fn \<Rightarrow> nat \<Rightarrow> nat \<Rightarrow> json \<Rightarrow> keyPair \<Rightarrow> nat \<Rightarrow> frame" where
  "createFrame sign now ty pl kp fl =
     (let payloadBuffer = Buffer_from (JSON_stringify pl);
          frameWithoutSig =
            \<lparr> flength = 0, version = PROTOCOL_VERSION, ftype = ty, flags = fl,
              timestamp = now, senderPubkey = publicKey kp, payload = payloadBuffer,
              signature = alloc SIGNATURE_SIZE \<rparr>;
          frameWithoutSig = frameWithoutSig
            \<lparr> flength := 4 + 1 + 1 + 2 + 8 + PUBLIC_KEY_SIZE + length payloadBuffer
                           + SIGNATURE_SIZE \<rparr>;
          buffer = serializeFrame frameWithoutSig;
          dataToSign = subarray buffer 0 (length buffer - SIGNATURE_SIZE);
          sg = sign dataToSign (secretKey kp)
      in frameWithoutSig \<lparr> signature := sg \<rparr>)"

text \<open>\<^verbatim>\<open>verifyFrame\<close>: an exception of the library is caught and gives \<open>false\<close>.\<close>

definition verifyFrame :: "verify_fn \<Rightarrow> frame \<Rightarrow> bool" where
  "verifyFrame verify f =
     (let frameCopy = f \<lparr> signature := alloc SIGNATURE_SIZE \<rparr>;
          buffer = serializeFrame frameCopy;
          dataToVerify = subarray buffer 0 (length buffer - SIGNATURE_SIZE)
      in case verify dataToVerify (signature f) (senderPubkey f) of
           Some ok \<Rightarrow> ok
         | None \<Rightarrow> False)"

definition createHeartbeat :: "sign_fn \<Rightarrow> nat \<Rightarrow> keyPair \<Rightarrow> frame" where
  "createHeartbeat sign now kp =
     createFrame sign now CONTROL
       (JObj [(''type'', JStr ''heartbeat''), (''timestamp'', JNum (int now))]) kp 0"

definition createCapabilities :: "sign_fn \<Rightarrow> nat \<Rightarrow> json \<Rightarrow> keyPair \<Rightarrow> frame" where
  "createCapabilities sign now caps kp =
     createFrame sign now CONTROL
       (JObj [(''type'', JStr ''capabilities''), (''data'', caps)]) kp 0"

definition createRequest :: "sign_fn \<Rightarrow> nat \<Rightarrow> json \<Rightarrow> keyPair \<Rightarrow> frame" where
  "createRequest sign now request kp = createFrame sign now REQUEST request kp 0"

definition createResponse :: "sign_fn \<Rightarrow> nat \<Rightarrow> json \<Rightarrow> keyPair \<Rightarrow> frame" where
  "createResponse sign now response kp = createFrame sign now RESPONSE response kp 0"

section \<open>Trust path (\<^verbatim>\<open>src/protocol.js\<close>)\<close>

text \<open>The loop of \<^verbatim>\<open>detectCircularTrust\<close> over the path, with the set \<open>seen\<close>.\<close>

fun seen_loop :: "'a set \<Rightarrow> 'a list \<Rightarrow> bool" where
  "seen_loop seen [] = False"
| "seen_loop seen (pubkey # rest) =
     (if pubkey \<in> seen then True else seen_loop (insert pubkey seen) rest)"

definition detectCircularTrust :: "'a list \<Rightarrow> 'a \<Rightarrow> bool" where
  "detectCircularTrust trustPath ownPubkey =
     (if ownPubkey \<in> set trustPath then True else seen_loop {} trustPath)"

section \<open>Introductions (\<^verbatim>\<open>src/protocol.js\<close>)\<close>

record introduction =
  intro_pubkey :: string
  intro_alias :: string
  intro_capabilities :: json
  intro_message :: "string option"
  introducerPubkey :: string
  intro_timestamp :: int
  trustPath :: "string list"
  intro_signature :: buffer

datatype validation_error =
    Expired int
  | FromTheFuture
  | InvalidIntroductionSignature
  | IntroducerMismatch

datatype validation = Valid | Invalid validation_error

text \<open>
  The object \<^verbatim>\<open>validateIntroduction\<close> rebuilds and serializes: the fields of the record
  without the signature, in this order.
\<close>

definition intro_payload :: "introduction \<Rightarrow> json" where
  "intro_payload intro =
     object [(''pubkey'', Some (JStr (intro_pubkey intro))),
             (''alias'', Some (JStr (intro_alias intro))),
             (''capabilities'', Some (intro_capabilities intro)),
             (''message'', map_option JStr (intro_message intro)),
             (''introducerPubkey'', Some (JStr (introducerPubkey intro))),
             (''timestamp'', Some (JNum (intro_timestamp intro))),
             (''trustPath'', Some (JArr (map JStr (trustPath intro))))]"

text \<open>
  \<^verbatim>\<open>validateIntroduction(intro, introducerPubkey, maxAge)\<close>. \<open>None\<close>: the signature
  library threw, and so does the function.
\<close>

definition validateIntroduction ::
  "verify_fn \<Rightarrow> int \<Rightarrow> introduction \<Rightarrow> buffer \<Rightarrow> int \<Rightarrow> validation option" where
  "validateIntroduction verify now intro introducerKey maxAge =
     (let age = now - intro_timestamp intro
      in if age > maxAge then Some (Invalid (Expired age))
         else if age < 0 then Some (Invalid FromTheFuture)
         else
           let payloadBuffer = Buffer_from (JSON_stringify (intro_payload intro))
           in case verify payloadBuffer (intro_signature intro) introducerKey of
                None \<Rightarrow> None
              | Some ok \<Rightarrow>
                  if \<not> ok then Some (Invalid InvalidIntroductionSignature)
                  else if introducerPubkey intro \<noteq> toHex introducerKey
                    then Some (Invalid IntroducerMismatch)
                  else Some Valid)"

definition maxAge_default :: int where
  "maxAge_default = 24 * 60 * 60 * 1000"

text \<open>
  \<^verbatim>\<open>createIntroduction\<close> signs the serialized record with the introducer's secret key
  (the frame around it is \<^verbatim>\<open>createFrame\<close>); this is the signed record.
\<close>

definition signIntroduction :: "sign_fn \<Rightarrow> introduction \<Rightarrow> keyPair \<Rightarrow> introduction" where
  "signIntroduction sign intro kp =
     intro \<lparr> intro_signature :=
               sign (Buffer_from (JSON_stringify (intro_payload intro))) (secretKey kp) \<rparr>"

section \<open>Peer sessions (\<^verbatim>\<open>src/peer.js\<close>): state\<close>

text \<open>
  The error classes of \<^verbatim>\<open>src/types.js\<close> that a session raises, the plain \<open>Error\<close>
  objects it builds, and the two exceptions of the runtime that its handlers can meet.
\<close>

datatype error =
    ProtocolError protocol_error
  | PeerOfflineError string
  | RequestTimeoutError string nat
  | WriteTimeoutError
  | ResponseError "json option"
  | TypeError
  | SyntaxError

text \<open>
  \<open>WriteTimeoutError\<close> is \<^verbatim>\<open>new Error("Write timeout due to backpressure")\<close>, and
  \<open>ResponseError m\<close> is \<^verbatim>\<open>new Error(response.error.message)\<close> with \<open>m\<close> the value of
  that property (\<open>None\<close> when it is undefined).

  What the session hands to its listeners is recorded in order. Listeners are code of the
  application: they are taken to return normally, and an \<open>error\<close> listener to exist.
\<close>

datatype event =
    EvError error
  | EvMessage nat json
  | EvIntroduction json
  | EvCapabilities json
  | EvRequest json
  | EvDisconnect
  | EvTimeout

text \<open>
  A promise is a number; it settles once, with the value it was resolved with (\<open>None\<close>
  for undefined) or the error it was rejected with.
\<close>

datatype outcome = Resolved "json option" | Rejected error

text \<open>
  What an armed timer does when it fires: the interval of \<open>startHeartbeat\<close>, the timeout
  of \<open>resetHeartbeatTimeout\<close>, the deadline of \<open>request\<close> (request id, timeout, promise
  of the caller), the timeout of a parked write (promise of the write).
\<close>

datatype timer_action =
    HeartbeatTick
  | LivenessTimeout
  | RequestDeadline string nat nat
  | WriteTimeout nat

text \<open>\<^verbatim>\<open>setImmediate(checkDrain)\<close>: the promise of the write and its timeout timer.\<close>

datatype immediate = CheckDrain nat nat

text \<open>
  What the caller of \<open>writeFrame\<close> attached to the promise it returns: the heartbeat
  swallows a rejection, \<open>request\<close> cleans up (timer, request id, promise of the caller),
  the other senders let it propagate to their own caller.
\<close>

datatype on_reject =
    Swallow
  | Propagate
  | RequestSendFailed nat string nat

record stream_state =
  written :: "buffer list"
  stream_destroyed :: bool

record pending =
  caller :: nat
  timer :: nat

text \<open>
  The fields of a \<open>PeerConnection\<close>, followed by the part of the event loop the session
  uses: the armed timers with the time they are due, the queue of \<open>setImmediate\<close>, the
  settled promises, the handlers attached to write promises, and the events emitted.
  \<open>pendingRequests\<close> is a \<open>Map\<close>: an association list in insertion order.
\<close>

record peer =
  pubkey :: string
  stream :: stream_state
  capabilities :: json
  ourKeyPair :: keyPair
  heartbeatInterval :: nat
  heartbeatTimeout :: nat
  connectedAt :: nat
  lastSeen :: nat
  online :: bool
  pendingRequests :: "(string \<times> pending) list"
  requestCounter :: nat
  destroyed :: bool
  writeQueue :: "buffer list"
  writeDraining :: bool
  heartbeatTimer :: "nat option"
  heartbeatTimeoutTimer :: "nat option"
  timers :: "(nat \<times> timer_action \<times> nat) list"
  nextTimer :: nat
  immediates :: "immediate list"
  settled :: "(nat \<times> outcome) list"
  nextPromise :: nat
  reactions :: "(nat \<times> on_reject) list"
  emitted :: "event list"

section \<open>Peer sessions: the runtime\<close>

definition emit :: "event \<Rightarrow> peer \<Rightarrow> peer" where
  "emit ev s = s \<lparr> emitted := emitted s @ [ev] \<rparr>"

text \<open>\<^verbatim>\<open>setTimeout\<close> and \<^verbatim>\<open>setInterval\<close> return the new timer.\<close>

definition setTimeout :: "timer_action \<Rightarrow> nat \<Rightarrow> nat \<Rightarrow> peer \<Rightarrow> nat \<times> peer" where
  "setTimeout action delay now s =
     (nextTimer s,
      s \<lparr> timers := timers s @ [(nextTimer s, action, now + delay)],
          nextTimer := nextTimer s + 1 \<rparr>)"

definition clearTimeout :: "nat \<Rightarrow> peer \<Rightarrow> peer" where
  "clearTimeout t s = s \<lparr> timers := AList.delete t (timers s) \<rparr>"

text \<open>Settling a promise that is already settled does nothing.\<close>

definition settle :: "nat \<Rightarrow> outcome \<Rightarrow> peer \<Rightarrow> peer" where
  "settle p out s =
     (case map_of (settled s) p of
        Some _ \<Rightarrow> s
      | None \<Rightarrow> s \<lparr> settled := settled s @ [(p, out)] \<rparr>)"

text \<open>The handler \<open>request\<close> attaches with \<^verbatim>\<open>.catch\<close> to the promise of its write.\<close>

definition run_on_reject :: "on_reject \<Rightarrow> error \<Rightarrow> peer \<Rightarrow> peer" where
  "run_on_reject k err s =
     (case k of
        Swallow \<Rightarrow> s
      | Propagate \<Rightarrow> s
      | RequestSendFailed t rid c \<Rightarrow>
          (let s = clearTimeout t s;
               s = s \<lparr> pendingRequests := AList.delete rid (pendingRequests s) \<rparr>
           in settle c (Rejected err) s))"

text \<open>Rejecting the promise of a write runs the handler attached to it, once.\<close>

definition reject_write :: "nat \<Rightarrow> error \<Rightarrow> peer \<Rightarrow> peer" where
  "reject_write p err s =
     (case map_of (settled s) p of
        Some _ \<Rightarrow> s
      | None \<Rightarrow>
          (let s = settle p (Rejected err) s
           in case map_of (reactions s) p of
                None \<Rightarrow> s
              | Some k \<Rightarrow> run_on_reject k err s))"

text \<open>\<^verbatim>\<open>stream.write(buffer)\<close>; what it returns is an input from the transport.\<close>

definition stream_write :: "buffer \<Rightarrow> peer \<Rightarrow> peer" where
  "stream_write buffer s = s \<lparr> stream := (stream s) \<lparr> written := written (stream s) @ [buffer] \<rparr> \<rparr>"

text \<open>
  Property access \<^verbatim>\<open>v.k\<close> on a parsed value, for the keys the session reads: the
  member of an object (its keys are distinct, as \<^verbatim>\<open>JSON.parse\<close> leaves them), undefined
  on a boolean, a number, a string or an array, and a TypeError on \<open>null\<close>.
\<close>

definition js_field :: "json \<Rightarrow> string \<Rightarrow> json option" where
  "js_field v k = (case v of JObj kvs \<Rightarrow> map_of kvs k | _ \<Rightarrow> None)"

definition js_prop :: "json \<Rightarrow> string \<Rightarrow> error + json option" where
  "js_prop v k = (if v = JNull then Inl TypeError else Inr (js_field v k))"

definition truthy :: "json option \<Rightarrow> bool" where
  "truthy v =
     (case v of
        None \<Rightarrow> False
      | Some JNull \<Rightarrow> False
      | Some (JBool b) \<Rightarrow> b
      | Some (JNum n) \<Rightarrow> n \<noteq> 0
      | Some (JStr str) \<Rightarrow> str \<noteq> []
      | Some _ \<Rightarrow> True)"

text \<open>
  \<^verbatim>\<open>pendingRequests.get(key)\<close> and \<^verbatim>\<open>.delete(key)\<close> for a key read from a message: the
  keys of the map are strings, and only an equal string finds one.
\<close>

definition Map_get :: "(string \<times> 'v) list \<Rightarrow> json option \<Rightarrow> 'v option" where
  "Map_get m key = (case key of Some (JStr k) \<Rightarrow> map_of m k | _ \<Rightarrow> None)"

definition Map_delete :: "json option \<Rightarrow> (string \<times> 'v) list \<Rightarrow> (string \<times> 'v) list" where
  "Map_delete key m = (case key of Some (JStr k) \<Rightarrow> AList.delete k m | _ \<Rightarrow> m)"

section \<open>Peer sessions: the methods\<close>

text \<open>
  Each method takes the session and returns it updated. \<open>now\<close> is \<^verbatim>\<open>Date.now()\<close>,
  \<open>canContinue\<close> is what \<^verbatim>\<open>stream.write\<close> returns, \<open>parse\<close> is \<^verbatim>\<open>JSON.parse\<close> on the
  payload bytes (\<open>None\<close> when it throws).
\<close>

definition resetHeartbeatTimeout :: "nat \<Rightarrow> peer \<Rightarrow> peer" where
  "resetHeartbeatTimeout now s =
     (let s = (case heartbeatTimeoutTimer s of Some t \<Rightarrow> clearTimeout t s | None \<Rightarrow> s);
          (t, s) = setTimeout LivenessTimeout (heartbeatTimeout s) now s
      in s \<lparr> heartbeatTimeoutTimer := Some t \<rparr>)"

definition startHeartbeat :: "nat \<Rightarrow> peer \<Rightarrow> peer" where
  "startHeartbeat now s =
     (let (t, s) = setTimeout HeartbeatTick (heartbeatInterval s) now s;
          s = s \<lparr> heartbeatTimer := Some t \<rparr>
      in resetHeartbeatTimeout now s)"

definition stopHeartbeat :: "peer \<Rightarrow> peer" where
  "stopHeartbeat s =
     (let s = (case heartbeatTimer s of
                 Some t \<Rightarrow> (clearTimeout t s) \<lparr> heartbeatTimer := None \<rparr>
               | None \<Rightarrow> s);
          s = (case heartbeatTimeoutTimer s of
                 Some t \<Rightarrow> (clearTimeout t s) \<lparr> heartbeatTimeoutTimer := None \<rparr>
               | None \<Rightarrow> s)
      in s)"

text \<open>
  \<open>checkDrain\<close>, the closure inside \<open>writeFrame\<close>, for the write with promise \<open>p\<close> and
  timeout timer \<open>timeout\<close>.
\<close>

definition checkDrain :: "nat \<Rightarrow> nat \<Rightarrow> peer \<Rightarrow> peer" where
  "checkDrain p timeout s =
     (if \<not> writeDraining s then settle p (Resolved None) (clearTimeout timeout s)
      else s \<lparr> immediates := immediates s @ [CheckDrain p timeout] \<rparr>)"

definition run_immediate :: "peer \<Rightarrow> peer" where
  "run_immediate s =
     (case immediates s of
        [] \<Rightarrow> s
      | CheckDrain p timeout # rest \<Rightarrow> checkDrain p timeout (s \<lparr> immediates := rest \<rparr>))"

text \<open>\<open>writeFrame\<close> returns its promise; \<open>k\<close> is what its caller does with a rejection.\<close>

definition writeFrame :: "bool \<Rightarrow> nat \<Rightarrow> on_reject \<Rightarrow> frame \<Rightarrow> peer \<Rightarrow> nat \<times> peer" where
  "writeFrame canContinue now k f s =
     (let p = nextPromise s;
          s = s \<lparr> nextPromise := p + 1, reactions := reactions s @ [(p, k)] \<rparr>
      in if destroyed s then (p, reject_write p (PeerOfflineError (pubkey s)) s)
         else
           let buffer = serializeFrame f;
               s = stream_write buffer s
           in if \<not> canContinue then
                let s = s \<lparr> writeQueue := writeQueue s @ [buffer] \<rparr>;
                    (timeout, s) = setTimeout (WriteTimeout p) 30000 now s
                in (p, checkDrain p timeout s)
              else (p, settle p (Resolved None) s))"

text \<open>
  The loop of \<open>processWriteQueue\<close>: queue, \<open>writeDraining\<close>, and the buffers written so
  far; \<open>answers\<close> are the results of the successive \<^verbatim>\<open>stream.write\<close> calls.
\<close>

fun drain_loop ::
  "bool list \<Rightarrow> buffer list \<Rightarrow> bool \<Rightarrow> buffer list \<Rightarrow> buffer list \<times> bool \<times> buffer list" where
  "drain_loop answers [] draining out = ([], draining, out)"
| "drain_loop answers (b # q) draining out =
     (if draining then (b # q, draining, out)
      else drain_loop (tl answers) q
             (\<not> (case answers of [] \<Rightarrow> True | a # _ \<Rightarrow> a)) (out @ [b]))"

definition processWriteQueue :: "bool list \<Rightarrow> peer \<Rightarrow> peer" where
  "processWriteQueue answers s =
     (let (q, d, out) = drain_loop answers (writeQueue s) False []
      in s \<lparr> writeQueue := q, writeDraining := d,
             stream := (stream s) \<lparr> written := written (stream s) @ out \<rparr> \<rparr>)"

definition handleControl :: "json \<Rightarrow> peer \<Rightarrow> error + peer" where
  "handleControl msg s =
     (case js_prop msg ''type'' of
        Inl e \<Rightarrow> Inl e
      | Inr ty \<Rightarrow>
          if ty = Some (JStr ''heartbeat'') then Inr s
          else if ty = Some (JStr ''capabilities'') then
            (case js_prop msg ''data'' of
               Inl e \<Rightarrow> Inl e
             | Inr None \<Rightarrow> Inr s
             | Inr (Some d) \<Rightarrow>
                 if truthy (Some d)
                 then Inr (emit (EvCapabilities d) (s \<lparr> capabilities := d \<rparr>))
                 else Inr s)
          else Inr s)"

definition handleRequest :: "json \<Rightarrow> peer \<Rightarrow> peer" where
  "handleRequest request s = emit (EvRequest request) s"

definition handleResponse :: "json \<Rightarrow> peer \<Rightarrow> error + peer" where
  "handleResponse response s =
     (case js_prop response ''id'' of
        Inl e \<Rightarrow> Inl e
      | Inr rid \<Rightarrow>
          (case Map_get (pendingRequests s) rid of
             None \<Rightarrow> Inr s
           | Some pending \<Rightarrow>
               (let s = clearTimeout (timer pending) s;
                    s = s \<lparr> pendingRequests := Map_delete rid (pendingRequests s) \<rparr>
                in case js_prop response ''error'' of
                     Inl e \<Rightarrow> Inl e
                   | Inr err \<Rightarrow>
                       if truthy err then
                         (case err of
                            None \<Rightarrow> Inl TypeError
                          | Some ev \<Rightarrow>
                              (case js_prop ev ''message'' of
                                 Inl e \<Rightarrow> Inl e
                               | Inr m \<Rightarrow>
                                   Inr (settle (caller pending) (Rejected (ResponseError m)) s)))
                       else
                         (case js_prop response ''result'' of
                            Inl e \<Rightarrow> Inl e
                          | Inr r \<Rightarrow> Inr (settle (caller pending) (Resolved r) s)))))"

definition handleFrame :: "(buffer \<Rightarrow> json option) \<Rightarrow> frame \<Rightarrow> peer \<Rightarrow> error + peer" where
  "handleFrame parse f s =
     (case parse (payload f) of
        None \<Rightarrow> Inl SyntaxError
      | Some pl \<Rightarrow>
          if ftype f = CONTROL then handleControl pl s
          else if ftype f = REQUEST then Inr (handleRequest pl s)
          else if ftype f = RESPONSE then handleResponse pl s
          else if ftype f = EVENT then Inr (emit (EvMessage EVENT pl) s)
          else if ftype f = INTRODUCE then Inr (emit (EvIntroduction pl) s)
          else Inr (emit (EvError (ProtocolError (UnknownMessageType (ftype f)))) s))"

text \<open>
  \<open>handleData\<close>. An exception inside the \<^verbatim>\<open>try\<close> block is emitted as an error; the
  handlers throw before they change the session, so the session is then as it was when
  the handler was entered.
\<close>

definition handleData ::
  "verify_fn \<Rightarrow> (buffer \<Rightarrow> json option) \<Rightarrow> nat \<Rightarrow> buffer \<Rightarrow> peer \<Rightarrow> peer" where
  "handleData verify parse now data s =
     (let s = s \<lparr> lastSeen := now \<rparr>;
          s = resetHeartbeatTimeout now s
      in case deserializeFrame data of
           Inl e \<Rightarrow> emit (EvError (ProtocolError e)) s
         | Inr f \<Rightarrow>
             if \<not> verifyFrame verify f
             then emit (EvError (ProtocolError InvalidFrameSignature)) s
             else
               let senderPubkeyHex = toHex (senderPubkey f)
               in if senderPubkeyHex \<noteq> pubkey s
                  then emit (EvError (ProtocolError (SenderMismatch (pubkey s) senderPubkeyHex))) s
                  else (case handleFrame parse f s of
                          Inl e \<Rightarrow> emit (EvError e) s
                        | Inr s' \<Rightarrow> s'))"

text \<open>The loop of \<open>handleDisconnect\<close> and of \<open>destroy\<close> over the pending requests.\<close>

fun rejectAll :: "string \<Rightarrow> (string \<times> pending) list \<Rightarrow> peer \<Rightarrow> peer" where
  "rejectAll pk [] s = s"
| "rejectAll pk ((rid, pending) # rest) s =
     rejectAll pk rest
       (settle (caller pending) (Rejected (PeerOfflineError pk))
          (clearTimeout (timer pending) s))"

definition handleDisconnect :: "peer \<Rightarrow> peer" where
  "handleDisconnect s =
     (if destroyed s then s
      else
        let s = s \<lparr> online := False \<rparr>;
            s = stopHeartbeat s;
            s = rejectAll (pubkey s) (pendingRequests s) s;
            s = s \<lparr> pendingRequests := [] \<rparr>
        in emit EvDisconnect s)"

definition destroy :: "peer \<Rightarrow> peer" where
  "destroy s =
     (if destroyed s then s
      else
        let s = s \<lparr> destroyed := True \<rparr>;
            s = stopHeartbeat s;
            s = s \<lparr> stream := (stream s) \<lparr> stream_destroyed := True \<rparr> \<rparr>;
            s = rejectAll (pubkey s) (pendingRequests s) s
        in s \<lparr> pendingRequests := [] \<rparr>)"

text \<open>
  \<open>request\<close>, in its two halves: what happens inside the promise up to
  \<^verbatim>\<open>pendingRequests.set\<close>, and building and writing the frame. The first half returns
  the request id, the deadline timer, the promise of the caller and the request object.
\<close>

definition request_register ::
  "nat \<Rightarrow> string \<Rightarrow> json option \<Rightarrow> nat \<Rightarrow> peer \<Rightarrow> (string \<times> nat \<times> nat \<times> json) \<times> peer" where
  "request_register now method params timeout s =
     (let s = s \<lparr> requestCounter := requestCounter s + 1 \<rparr>;
          rid = dec_nat now @ ''-'' @ dec_nat (requestCounter s);
          request = object [(''id'', Some (JStr rid)), (''method'', Some (JStr method)),
                            (''params'', params), (''timeout'', Some (JNum (int timeout)))];
          c = nextPromise s;
          s = s \<lparr> nextPromise := c + 1 \<rparr>;
          (t, s) = setTimeout (RequestDeadline rid timeout c) timeout now s;
          s = s \<lparr> pendingRequests :=
                    AList.update rid \<lparr> caller = c, timer = t \<rparr> (pendingRequests s) \<rparr>
      in ((rid, t, c, request), s))"

definition request_send ::
  "sign_fn \<Rightarrow> bool \<Rightarrow> nat \<Rightarrow> string \<times> nat \<times> nat \<times> json \<Rightarrow> peer \<Rightarrow> nat \<times> peer" where
  "request_send sign canContinue now reg s =
     (case reg of (rid, t, c, request) \<Rightarrow>
        (let f = createRequest sign now request (ourKeyPair s);
             (w, s) = writeFrame canContinue now (RequestSendFailed t rid c) f s
         in (c, s)))"

definition request ::
  "sign_fn \<Rightarrow> bool \<Rightarrow> nat \<Rightarrow> string \<Rightarrow> json option \<Rightarrow> nat \<Rightarrow> peer \<Rightarrow> nat \<times> peer" where
  "request sign canContinue now method params timeout s =
     (let (reg, s) = request_register now method params timeout s
      in request_send sign canContinue now reg s)"

definition sendResponse :: "sign_fn \<Rightarrow> bool \<Rightarrow> nat \<Rightarrow> json \<Rightarrow> peer \<Rightarrow> nat \<times> peer" where
  "sendResponse sign canContinue now response s =
     writeFrame canContinue now Propagate (createResponse sign now response (ourKeyPair s)) s"

definition sendCapabilities :: "sign_fn \<Rightarrow> bool \<Rightarrow> nat \<Rightarrow> peer \<Rightarrow> nat \<times> peer" where
  "sendCapabilities sign canContinue now s =
     (let ourCapabilities =
            JObj [(''agent'', JStr ''aronia''), (''version'', JStr ''0.1.0''),
                  (''accepts'', JArr [JStr ''application/json''])]
      in writeFrame canContinue now Propagate
           (createCapabilities sign now ourCapabilities (ourKeyPair s)) s)"

text \<open>
  The timer \<open>t\<close> fires. A cleared timer does not fire; a timeout fires once, the
  heartbeat interval stays armed.
\<close>

definition fire :: "sign_fn \<Rightarrow> bool \<Rightarrow> nat \<Rightarrow> nat \<Rightarrow> peer \<Rightarrow> peer" where
  "fire sign canContinue now t s =
     (case map_of (timers s) t of
        None \<Rightarrow> s
      | Some (action, due) \<Rightarrow>
          (case action of
             HeartbeatTick \<Rightarrow>
               if destroyed s \<or> \<not> online s then s
               else snd (writeFrame canContinue now Swallow
                           (createHeartbeat sign now (ourKeyPair s)) s)
           | LivenessTimeout \<Rightarrow> destroy (emit EvTimeout (clearTimeout t s))
           | RequestDeadline rid timeout c \<Rightarrow>
               (let s = clearTimeout t s;
                    s = s \<lparr> pendingRequests := AList.delete rid (pendingRequests s) \<rparr>
                in settle c (Rejected (RequestTimeoutError rid timeout)) s)
           | WriteTimeout p \<Rightarrow> reject_write p WriteTimeoutError (clearTimeout t s)))"

text \<open>The constructor, with the options it reads.\<close>

record opts =
  opt_pubkey :: string
  opt_stream :: stream_state
  opt_ourKeyPair :: keyPair
  opt_heartbeatInterval :: "nat option"
  opt_heartbeatTimeout :: "nat option"

definition PeerConnection :: "sign_fn \<Rightarrow> bool \<Rightarrow> nat \<Rightarrow> opts \<Rightarrow> peer" where
  "PeerConnection sign canContinue now opts =
     (let s = \<lparr> pubkey = opt_pubkey opts,
                stream = opt_stream opts,
                capabilities =
                  JObj [(''agent'', JStr ''unknown''), (''version'', JStr ''0.0.0''),
                        (''accepts'', JArr [])],
                ourKeyPair = opt_ourKeyPair opts,
                heartbeatInterval =
                  (case opt_heartbeatInterval opts of None \<Rightarrow> 30000 | Some v \<Rightarrow> v),
                heartbeatTimeout =
                  (case opt_heartbeatTimeout opts of None \<Rightarrow> 90000 | Some v \<Rightarrow> v),
                connectedAt = now,
                lastSeen = now,
                online = True,
                pendingRequests = [],
                requestCounter = 0,
                destroyed = False,
                writeQueue = [],
                writeDraining = False,
                heartbeatTimer = None,
                heartbeatTimeoutTimer = None,
                timers = [],
                nextTimer = 1,
                immediates = [],
                settled = [],
                nextPromise = 0,
                reactions = [],
                emitted = [] \<rparr>;
          s = startHeartbeat now s
      in snd (sendCapabilities sign canContinue now s))"

section \<open>A stand-in signature scheme\<close>

text \<open>
  To run the code on concrete inputs the two library functions need an instance. This
  one tags a message with the public key: the secret key is a 32-byte seed followed by the
  public key, a signature is the first 64 bytes of public key, message and zero padding,
  and verification recomputes it. It has the sizes and the interface of the library, and
  none of its security.
\<close>

definition demo_tag :: "buffer \<Rightarrow> buffer \<Rightarrow> buffer" where
  "demo_tag pk m = take 64 (pk @ m @ alloc 64)"

definition demo_sign :: sign_fn where
  "demo_sign m sk = demo_tag (drop 32 sk) m"

definition demo_verify :: verify_fn where
  "demo_verify m s pk =
     (if length s = 64 \<and> length pk = 32 then Some (s = demo_tag pk m) else None)"

definition demo_keyPair :: keyPair where
  "demo_keyPair =
     \<lparr> publicKey = replicate 32 7, secretKey = replicate 32 9 @ replicate 32 7 \<rparr>"

text \<open>
  An introduction signed by \<open>demo_keyPair\<close> whose trust path has four entries, one of
  them twice.
\<close>

definition demo_introduction :: introduction where
  "demo_introduction = signIntroduction demo_sign
     \<lparr> intro_pubkey = ''c0ffee'', intro_alias = ''worker'',
       intro_capabilities =
         JObj [(''agent'', JStr ''w''), (''version'', JStr ''1''), (''accepts'', JArr [])],
       intro_message = None,
       introducerPubkey = toHex (publicKey demo_keyPair),
       intro_timestamp = 1000,
       trustPath = [''b'', ''c'', ''b'', ''d''],
       intro_signature = [] \<rparr> demo_keyPair"



text \<open>
  A session with the peer whose key is \<open>demo_keyPair\<close>'s, created at time 1000 on a
  transport that accepted the capabilities frame.
\<close>

definition demo_opts :: opts where
  "demo_opts =
     \<lparr> opt_pubkey = toHex (publicKey demo_keyPair),
       opt_stream = \<lparr> written = [], stream_destroyed = False \<rparr>,
       opt_ourKeyPair = demo_keyPair,
       opt_heartbeatInterval = None,
       opt_heartbeatTimeout = None \<rparr>"

definition demo_peer :: peer where
  "demo_peer = PeerConnection demo_sign True 1000 demo_opts"

section \<open>Lemmas on buffers and numbers\<close>

lemma length_be_bytes [simp]: "length (be_bytes k n) = k"
  by (induction k) auto

lemma length_copy [simp]: "length (copy src buf off) = length buf"
  by (auto simp: copy_def min_def)

lemma length_demo_tag [simp]: "length (demo_tag pk m) = 64"
  by (simp add: demo_tag_def alloc_def)

lemma copy_zero_tail:
  "length pre = off \<Longrightarrow> length src \<le> n \<Longrightarrow>
   copy src (pre @ replicate n 0) off = (pre @ src) @ replicate (n - length src) 0"
  by (simp add: copy_def)

lemma be_nat_Nil [simp]: "be_nat [] = 0"
  by (simp add: be_nat_def)

lemma foldl_be_shift:
  "foldl (\<lambda>a b. a * 256 + unat b) a (bs :: buffer) =
     a * 256 ^ length bs + foldl (\<lambda>a b. a * 256 + unat b) 0 bs"
proof (induction bs arbitrary: a)
  case Nil
  then show ?case by simp
next
  case (Cons x xs)
  show ?case
    using Cons.IH [of "a * 256 + unat x"] Cons.IH [of "unat x"]
    by (simp add: algebra_simps)
qed

lemma be_nat_Cons: "be_nat (x # xs) = unat x * 256 ^ length xs + be_nat xs"
  using foldl_be_shift [of "unat x" xs] by (simp add: be_nat_def)

lemma be_nat_single: "be_nat [x] = unat x"
  by (simp add: be_nat_Cons)

lemma be_nat_less: "be_nat bs < 256 ^ length bs"
proof (induction bs)
  case Nil
  then show ?case by simp
next
  case (Cons x xs)
  define P :: nat where "P = 256 ^ length xs"
  have "unat x < 256" using unsigned_less [of x] by simp
  then have "unat x \<le> 255" by simp
  then have u: "unat x * P \<le> 255 * P"
    by (rule mult_le_mono1)
  have r: "be_nat xs < P" using Cons by (simp add: P_def)
  have "unat x * P + be_nat xs < 256 * P" using u r by arith
  then show ?case by (simp add: be_nat_Cons P_def)
qed

lemma be_nat_replicate_zero [simp]: "be_nat (replicate n 0) = 0"
  by (induction n) (simp_all add: be_nat_Cons)

lemma unat_of_nat_byte: "unat (of_nat m :: byte) = m mod 256"
  by (simp add: unat_of_nat)

text \<open>Reading back what was written gives the value modulo the width of the field.\<close>

lemma be_nat_be_bytes: "be_nat (be_bytes k n) = n mod 256 ^ k"
proof (induction k)
  case 0
  then show ?case by simp
next
  case (Suc k)
  have "n mod (256 ^ k * 256) = 256 ^ k * (n div 256 ^ k mod 256) + n mod 256 ^ k"
    by (rule mod_mult2_eq)
  with Suc show ?case
    by (simp add: be_nat_Cons unat_of_nat_byte mult.commute)
qed

lemma be_bytes_shift: "be_bytes k (a * 256 ^ k + r) = be_bytes k r"
proof (induction k arbitrary: a)
  case 0
  then show ?case by simp
next
  case (Suc k)
  define P :: nat where "P = 256 ^ k"
  have P: "P \<noteq> 0" by (simp add: P_def)
  have e: "a * 256 ^ Suc k + r = (a * 256) * P + r"
    by (simp add: P_def)
  have d: "((a * 256) * P + r) div P = a * 256 + r div P"
    using P by (rule div_mult_self3)
  have w: "(of_nat (a * 256 + r div P) :: byte) = of_nat (r div P)"
    by (simp only: word_of_nat_eq_iff take_bit_eq_mod) simp
  have t: "be_bytes k ((a * 256) * P + r) = be_bytes k r"
    using Suc [of "a * 256"] by (simp add: P_def)
  have "be_bytes (Suc k) ((a * 256) * P + r) = be_bytes (Suc k) r"
    unfolding be_bytes.simps P_def [symmetric] d w t ..
  then show ?case by (simp only: e)
qed

text \<open>Writing back what was read gives the same bytes.\<close>

lemma be_bytes_be_nat: "length bs = k \<Longrightarrow> be_bytes k (be_nat bs) = bs"
proof (induction bs arbitrary: k)
  case Nil
  then show ?case by simp
next
  case (Cons x xs)
  then obtain k' where k: "k = Suc k'" and l: "length xs = k'" by (cases k) auto
  define P :: nat where "P = 256 ^ k'"
  have lt: "be_nat xs < P" using be_nat_less [of xs] l by (simp add: P_def)
  have d: "(unat x * P + be_nat xs) div P = unat x"
    using lt by simp
  have t: "be_bytes k' (unat x * P + be_nat xs) = xs"
    using be_bytes_shift [of k' "unat x" "be_nat xs"] Cons.IH [OF l] by (simp add: P_def)
  have c: "be_nat (x # xs) = unat x * P + be_nat xs"
    by (simp add: be_nat_Cons l P_def)
  show ?case
    unfolding k be_bytes.simps c P_def [symmetric] d t by simp
qed

lemma Number_exact: "n < 2 ^ 53 \<Longrightarrow> Number_of_BigInt n = n"
  by (simp add: Number_of_BigInt_def)

lemma Number_upper: "Number_of_BigInt n \<le> n + 2 ^ (floorlog 2 n - 53)"
proof -
  define e where "e = floorlog 2 n - 53"
  define q where "q = n div 2 ^ e"
  have a: "q * 2 ^ e \<le> n" by (simp add: q_def)
  then have b: "(q + 1) * 2 ^ e \<le> n + 2 ^ e" by (simp add: algebra_simps)
  have "Number_of_BigInt n = n \<or> Number_of_BigInt n = q * 2 ^ e
        \<or> Number_of_BigInt n = (q + 1) * 2 ^ e"
    by (simp add: Number_of_BigInt_def Let_def e_def q_def)
  then show ?thesis
    unfolding e_def [symmetric] using a b by auto
qed

lemma Number_lower:
  assumes "2 ^ 53 \<le> n"
  shows "2 ^ 53 \<le> Number_of_BigInt n"
proof -
  define L where "L = floorlog 2 n"
  define e where "e = L - 53"
  have pos: "0 < n" using assms by (simp add: less_le_trans [of 0 "2 ^ 53"])
  have b: "2 ^ (L - 1) \<le> n" "n < 2 ^ L"
    using floorlog_bounds [of n 2] pos by (simp_all add: L_def)
  have "(2::nat) ^ 53 < 2 ^ L" using assms b(2) by (rule le_less_trans)
  then have L: "53 < L" by (rule power_less_imp_less_exp [rotated]) simp
  then have e: "1 \<le> e" "L - 1 = 52 + e" by (simp_all add: e_def)
  have p: "(2::nat) ^ (52 + e) = 2 ^ 52 * 2 ^ e" by (rule power_add)
  have "(2::nat) ^ 52 * 2 ^ e \<le> n" using b(1) unfolding e(2) p .
  then have q: "2 ^ 52 \<le> n div 2 ^ e"
    by (simp add: less_eq_div_iff_mult_less_eq)
  have "(2::nat) ^ 1 \<le> 2 ^ e"
    using e(1) by (intro power_increasing) simp_all
  then have "(2::nat) ^ 52 * 2 ^ 1 \<le> 2 ^ 52 * 2 ^ e" by (rule mult_le_mono2)
  then have "(2::nat) ^ 53 \<le> 2 ^ 52 * 2 ^ e" by simp
  also have "\<dots> \<le> n div 2 ^ e * 2 ^ e" using q by (rule mult_le_mono1)
  finally have m: "2 ^ 53 \<le> n div 2 ^ e * 2 ^ e" .
  have "n div 2 ^ e * 2 ^ e \<le> (n div 2 ^ e + 1) * 2 ^ e" by simp
  with m have m': "2 ^ 53 \<le> (n div 2 ^ e + 1) * 2 ^ e" by (rule le_trans)
  have "Number_of_BigInt n = n \<or> Number_of_BigInt n = n div 2 ^ e * 2 ^ e
        \<or> Number_of_BigInt n = (n div 2 ^ e + 1) * 2 ^ e"
    by (simp add: Number_of_BigInt_def Let_def e_def L_def)
  then show ?thesis
    using assms m m' by auto
qed

section \<open>The frame codec\<close>

text \<open>
  With a 32-byte sender key and a 64-byte signature the writes of \<open>serializeFrame\<close> do
  not overlap, and the buffer is the concatenation of the fields: a header of 48 bytes,
  the payload, the signature.
\<close>

lemma serializeFrame_layout:
  assumes pk: "length (senderPubkey f) = 32" and sg: "length (signature f) = 64"
  shows "serializeFrame f =
     be_bytes 4 (112 + length (payload f)) @ be_bytes 1 (version f) @ be_bytes 1 (ftype f)
     @ be_bytes 2 (flags f) @ be_bytes 8 (timestamp f) @ senderPubkey f @ payload f
     @ signature f"
proof -
  define p where "p = length (payload f)"
  define total where "total = 112 + p"
  define b1 where "b1 = be_bytes 4 total"
  define b2 where "b2 = b1 @ be_bytes 1 (version f)"
  define b3 where "b3 = b2 @ be_bytes 1 (ftype f)"
  define b4 where "b4 = b3 @ be_bytes 2 (flags f)"
  define b5 where "b5 = b4 @ be_bytes 8 (timestamp f)"
  define b6 where "b6 = b5 @ senderPubkey f"
  define b7 where "b7 = b6 @ payload f"
  have l1: "length b1 = 4" by (simp add: b1_def)
  have l2: "length b2 = 5" by (simp add: b2_def l1)
  have l3: "length b3 = 6" by (simp add: b3_def l2)
  have l4: "length b4 = 8" by (simp add: b4_def l3)
  have l5: "length b5 = 16" by (simp add: b5_def l4)
  have l6: "length b6 = 48" by (simp add: b6_def l5 pk)
  have l7: "length b7 = 48 + p" by (simp add: b7_def l6 p_def)
  have s1: "writeUInt 4 total (alloc total) 0 = b1 @ replicate (108 + p) 0"
    using copy_zero_tail [of "[]" 0 "be_bytes 4 total" total]
    by (simp add: writeUInt_def alloc_def b1_def total_def)
  have s2: "writeUInt 1 (version f) (b1 @ replicate (108 + p) 0) 4 = b2 @ replicate (107 + p) 0"
    using copy_zero_tail [of b1 4 "be_bytes 1 (version f)" "108 + p"] l1
    by (simp add: writeUInt_def b2_def)
  have s3: "writeUInt 1 (ftype f) (b2 @ replicate (107 + p) 0) 5 = b3 @ replicate (106 + p) 0"
    using copy_zero_tail [of b2 5 "be_bytes 1 (ftype f)" "107 + p"] l2
    by (simp add: writeUInt_def b3_def)
  have s4: "writeUInt 2 (flags f) (b3 @ replicate (106 + p) 0) 6 = b4 @ replicate (104 + p) 0"
    using copy_zero_tail [of b3 6 "be_bytes 2 (flags f)" "106 + p"] l3
    by (simp add: writeUInt_def b4_def)
  have s5: "writeUInt 8 (timestamp f) (b4 @ replicate (104 + p) 0) 8 = b5 @ replicate (96 + p) 0"
    using copy_zero_tail [of b4 8 "be_bytes 8 (timestamp f)" "104 + p"] l4
    by (simp add: writeUInt_def b5_def)
  have s6: "copy (senderPubkey f) (b5 @ replicate (96 + p) 0) 16 = b6 @ replicate (64 + p) 0"
    using copy_zero_tail [of b5 16 "senderPubkey f" "96 + p"] l5 pk
    by (simp add: b6_def)
  have s7: "copy (payload f) (b6 @ replicate (64 + p) 0) 48 = b7 @ replicate 64 0"
    using copy_zero_tail [of b6 48 "payload f" "64 + p"] l6
    by (simp add: b7_def p_def)
  have s8: "copy (signature f) (b7 @ replicate 64 0) (48 + p) = b7 @ signature f"
    using copy_zero_tail [of b7 "48 + p" "signature f" 64] l7 sg
    by simp
  have "serializeFrame f = b7 @ signature f"
    unfolding serializeFrame_def Let_def PUBLIC_KEY_SIZE_def SIGNATURE_SIZE_def
    using s1 s2 s3 s4 s5 s6 s7 s8
    by (simp add: p_def total_def)
  then show ?thesis
    by (simp add: b7_def b6_def b5_def b4_def b3_def b2_def b1_def total_def p_def)
qed

lemma length_serializeFrame: "length (serializeFrame f) = 112 + length (payload f)"
  by (simp add: serializeFrame_def Let_def writeUInt_def alloc_def PUBLIC_KEY_SIZE_def
      SIGNATURE_SIZE_def)

lemma payload_createFrame:
  "payload (createFrame sign now ty pl kp fl) = Buffer_from (JSON_stringify pl)"
  by (simp add: createFrame_def Let_def)

lemma take1_drop: "n < length b \<Longrightarrow> take (Suc 0) (drop n b) = [b ! n]"
  by (simp add: take_Suc_conv_app_nth)

text \<open>
  \<open>deserializeFrame\<close> in closed form. The size check uses \<open>HEADER_SIZE = 52\<close>, the
  fields read before the payload end at offset 48: the payload is everything between
  offset 48 and the last 64 bytes, and its length \<open>length b - 48 - 64\<close> is never negative
  once the size check has passed.
\<close>

lemma deserializeFrame_eq:
  "deserializeFrame b =
     (if length b < 116 then Inl (BufferTooSmall (length b))
      else if be_nat (take 4 b) \<noteq> length b
        then Inl (LengthMismatch (be_nat (take 4 b)) (length b))
      else if unat (b ! 4) \<noteq> 1 then Inl (UnsupportedVersion (unat (b ! 4)))
      else Inr \<lparr> flength = length b, version = 1, ftype = unat (b ! 5),
                 flags = be_nat (take 2 (drop 6 b)),
                 timestamp = Number_of_BigInt (be_nat (take 8 (drop 8 b))),
                 senderPubkey = take 32 (drop 16 b),
                 payload = take (length b - 112) (drop 48 b),
                 signature = drop (length b - 64) b \<rparr>)"
proof -
  have n: "\<not> length b < 116 \<Longrightarrow> nat (int (length b) - 112) = length b - 112" by simp
  have m: "\<not> length b < 116 \<Longrightarrow> 48 + (length b - 112) = length b - 64" by simp
  show ?thesis
    by (simp add: deserializeFrame_def Let_def readUInt_def subarray_def HEADER_SIZE_def
        SIGNATURE_SIZE_def PUBLIC_KEY_SIZE_def PROTOCOL_VERSION_def be_nat_single
        take1_drop n m)
qed

text \<open>
  C4. For every byte buffer \<open>b\<close>, \<open>deserializeFrame b\<close> fails with a ProtocolError when
  \<open>b\<close> has fewer than 116 bytes, when the big-endian 32-bit number in its first four
  bytes differs from its length, when its version byte \<open>b[4]\<close> is not 1, or when
  \<open>length b - 52 - 64\<close> is negative; otherwise it returns a structured frame, whose
  fields are the slices of \<open>b\<close> given here.
\<close>

theorem deserializeFrame_cases:
  "(length b < 116 \<or> be_nat (take 4 b) \<noteq> length b \<or> unat (b ! 4) \<noteq> 1
      \<or> int (length b) - 52 - 64 < 0
     \<longrightarrow> (\<exists>e. deserializeFrame b = Inl e))
   \<and> (\<not> (length b < 116 \<or> be_nat (take 4 b) \<noteq> length b \<or> unat (b ! 4) \<noteq> 1
          \<or> int (length b) - 52 - 64 < 0)
     \<longrightarrow> deserializeFrame b =
          Inr \<lparr> flength = length b, version = 1, ftype = unat (b ! 5),
                flags = be_nat (take 2 (drop 6 b)),
                timestamp = Number_of_BigInt (be_nat (take 8 (drop 8 b))),
                senderPubkey = take 32 (drop 16 b),
                payload = take (length b - 112) (drop 48 b),
                signature = drop (length b - 64) b \<rparr>)"
  by (auto simp: deserializeFrame_eq)

theorem deserializeFrame_cases_witness:
  "(\<exists>e. deserializeFrame [0, 0, 0, 5, 1] = Inl e)
   \<and> deserializeFrame ([0, 0, 0, 116, 1, 4] @ replicate 110 0) =
       Inr \<lparr> flength = 116, version = 1, ftype = 4, flags = 0, timestamp = 0,
             senderPubkey = replicate 32 0, payload = replicate 4 0,
             signature = replicate 64 0 \<rparr>"
proof -
  let ?b = "[0, 0, 0, 116, 1, 4] @ replicate 110 (0 :: byte)"
  have l: "length ?b = 116" by simp
  have u: "be_nat (take 4 ?b) = 116" by (simp add: be_nat_Cons)
  have v: "unat (?b ! 4) = 1" "unat (?b ! 5) = 4" by simp_all
  have h: "\<not> (length ?b < 116 \<or> be_nat (take 4 ?b) \<noteq> length ?b \<or> unat (?b ! 4) \<noteq> 1
          \<or> int (length ?b) - 52 - 64 < 0)"
    by (simp only: l u v) simp
  have t: "Number_of_BigInt 0 = 0" by (simp add: Number_of_BigInt_def)
  have r: "take 2 (drop 6 ?b) = replicate 2 0" "take 8 (drop 8 ?b) = replicate 8 0"
      "take 32 (drop 16 ?b) = replicate 32 0"
      "take (116 - 112) (drop 48 ?b) = replicate 4 0"
      "drop (116 - 64) ?b = replicate 64 0"
    by simp_all
  have s: "\<exists>e. deserializeFrame [0, 0, 0, 5, 1] = Inl e"
    using deserializeFrame_cases [of "[0, 0, 0, 5, 1]"] by simp
  from deserializeFrame_cases [of ?b]
  have "\<not> (length ?b < 116 \<or> be_nat (take 4 ?b) \<noteq> length ?b \<or> unat (?b ! 4) \<noteq> 1
          \<or> int (length ?b) - 52 - 64 < 0)
     \<longrightarrow> deserializeFrame ?b =
          Inr \<lparr> flength = length ?b, version = 1, ftype = unat (?b ! 5),
                flags = be_nat (take 2 (drop 6 ?b)),
                timestamp = Number_of_BigInt (be_nat (take 8 (drop 8 ?b))),
                senderPubkey = take 32 (drop 16 ?b),
                payload = take (length ?b - 112) (drop 48 ?b),
                signature = drop (length ?b - 64) ?b \<rparr>"
    by (rule conjunct2)
  from this h have "deserializeFrame ?b =
          Inr \<lparr> flength = length ?b, version = 1, ftype = unat (?b ! 5),
                flags = be_nat (take 2 (drop 6 ?b)),
                timestamp = Number_of_BigInt (be_nat (take 8 (drop 8 ?b))),
                senderPubkey = take 32 (drop 16 ?b),
                payload = take (length ?b - 112) (drop 48 ?b),
                signature = drop (length ?b - 64) ?b \<rparr>"
    by (rule mp)
  then have "deserializeFrame ?b =
       Inr \<lparr> flength = 116, version = 1, ftype = 4, flags = 0, timestamp = 0,
             senderPubkey = replicate 32 0, payload = replicate 4 0,
             signature = replicate 64 0 \<rparr>"
    by (simp only: l v r be_nat_replicate_zero t)
  with s show ?thesis by (rule conjI)
qed

text \<open>
  C3, at the input where it fails. The frame \<open>createFrame\<close> builds for the payload \<open>{}\<close>
  serializes to 48 + 2 + 64 = 114 bytes, and \<open>deserializeFrame\<close> rejects every buffer
  shorter than \<open>HEADER_SIZE + SIGNATURE_SIZE\<close> = 116 bytes: the frame does not survive
  the round trip, whatever the key, the time and the signature function are.
\<close>

theorem createFrame_empty_object_rejected:
  "deserializeFrame (serializeFrame (createFrame sign now EVENT (JObj []) kp 0)) =
     Inl (BufferTooSmall 114)"
  by (simp add: deserializeFrame_eq length_serializeFrame payload_createFrame
      Buffer_from_def)

section \<open>Introductions and the trust path\<close>

lemma seen_loop_iff: "seen_loop S xs \<longleftrightarrow> (set xs \<inter> S \<noteq> {} \<or> \<not> distinct xs)"
  by (induction xs arbitrary: S) auto

text \<open>
  C9. For every trust path and own public key, \<open>detectCircularTrust\<close> returns true if and
  only if the path contains the own key or contains some entry twice; and it returns
  true on \<open>["b","c","a"]\<close> with own key \<open>"a"\<close>, true on \<open>["b","c","b"]\<close> with \<open>"z"\<close>, false
  on \<open>["a","b","c"]\<close> with \<open>"z"\<close>.
\<close>

theorem detectCircularTrust_iff:
  "(detectCircularTrust path ownPubkey \<longleftrightarrow> ownPubkey \<in> set path \<or> \<not> distinct path)
   \<and> detectCircularTrust [''b'', ''c'', ''a''] ''a'' = True
   \<and> detectCircularTrust [''b'', ''c'', ''b''] ''z'' = True
   \<and> detectCircularTrust [''a'', ''b'', ''c''] ''z'' = False"
  by (simp add: detectCircularTrust_def seen_loop_iff)

theorem detectCircularTrust_iff_witness:
  "detectCircularTrust [1, 2, 3, 2 :: nat] 9 \<and> detectCircularTrust [1, 2, 3 :: nat] 3
   \<and> \<not> detectCircularTrust [1, 2, 3 :: nat] 9"
  using detectCircularTrust_iff [of "[1, 2, 3, 2 :: nat]" 9]
    detectCircularTrust_iff [of "[1, 2, 3 :: nat]" 3]
    detectCircularTrust_iff [of "[1, 2, 3 :: nat]" 9]
  by simp

text \<open>
  C1, as the code has it. For every introduction record and every key \<open>K\<close> of the
  delivering peer, \<open>validateIntroduction\<close> returns valid if and only if the age of the
  record is in \<open>[0, maxAge]\<close>, the signature over the serialized record verifies against
  \<open>K\<close>, and the record's \<open>introducerPubkey\<close> is the hexadecimal form of \<open>K\<close>. The trust
  path is signed, and is not inspected.
\<close>

theorem validateIntroduction_valid_iff:
  "validateIntroduction verify now intro K maxAge = Some Valid \<longleftrightarrow>
     (0 \<le> now - intro_timestamp intro \<and> now - intro_timestamp intro \<le> maxAge
      \<and> verify (Buffer_from (JSON_stringify (intro_payload intro)))
            (intro_signature intro) K = Some True
      \<and> introducerPubkey intro = toHex K)"
  by (auto simp: validateIntroduction_def Let_def split: option.splits)

theorem validateIntroduction_valid_iff_witness:
  "validateIntroduction demo_verify 2000 demo_introduction (publicKey demo_keyPair)
     maxAge_default = Some Valid"
proof -
  have "demo_verify (Buffer_from (JSON_stringify (intro_payload demo_introduction)))
          (intro_signature demo_introduction) (publicKey demo_keyPair) = Some True"
    by (simp add: demo_introduction_def signIntroduction_def demo_verify_def demo_sign_def
        demo_keyPair_def intro_payload_def)
  moreover have "introducerPubkey demo_introduction = toHex (publicKey demo_keyPair)"
    by (simp add: demo_introduction_def signIntroduction_def)
  moreover have "(0::int) \<le> 2000 - intro_timestamp demo_introduction"
      "2000 - intro_timestamp demo_introduction \<le> maxAge_default"
    by (simp_all add: demo_introduction_def signIntroduction_def maxAge_default_def)
  ultimately show ?thesis
    using validateIntroduction_valid_iff [of demo_verify 2000 demo_introduction
        "publicKey demo_keyPair" maxAge_default]
    by simp
qed

text \<open>
  C1 as stated fails: this record, signed by the key of the delivering peer and one second
  old, is valid for \<open>validateIntroduction\<close>, while its trust path has an entry twice and
  has more than three entries.
\<close>

theorem validateIntroduction_ignores_trustPath:
  "validateIntroduction demo_verify 2000 demo_introduction (publicKey demo_keyPair)
     maxAge_default = Some Valid
   \<and> detectCircularTrust (trustPath demo_introduction) ''a''
   \<and> \<not> length (trustPath demo_introduction) \<le> 3"
  apply (intro conjI)
    apply (simp add: validateIntroduction_def Let_def demo_introduction_def
      signIntroduction_def demo_verify_def demo_sign_def demo_keyPair_def
      maxAge_default_def intro_payload_def)
   apply (simp add: demo_introduction_def signIntroduction_def detectCircularTrust_def)
  apply (simp add: demo_introduction_def signIntroduction_def)
  done

end
